theory Spec2Isabelle
  imports Complex_Main "HOL-Library.Word" "HOL-Library.Signed_Division"
begin

section \<open>The vector type\<close>

text \<open>
  \<^verbatim>\<open>Vector2<T>\<close> is a plain aggregate of two public fields of the coordinate type
  \<^verbatim>\<open>T\<close>. The coordinate type stays a type parameter: the arithmetic of each
  operation is that of \<^verbatim>\<open>T\<close>, asked for through a type class. The three
  instantiations the header names are \<^verbatim>\<open>float\<close>, read here as the real numbers
  (rounding, infinities and NaN are not modelled), \<^verbatim>\<open>unsigned int\<close>, a 32-bit
  word with wrap-around, and \<^verbatim>\<open>int\<close>, the same word read in two's complement.
\<close>

record 'a Vector2 =
  x :: 'a
  y :: 'a

type_synonym Vector2f = "real Vector2"
type_synonym Vector2u = "32 word Vector2"
type_synonym Vector2i = "32 word Vector2"

text \<open>The default constructor \<^verbatim>\<open>Vector2()\<close>; \<^verbatim>\<open>Vector2(X, Y)\<close> is the record itself.\<close>

definition Vector2_default :: "'a::zero Vector2" where
  "Vector2_default = \<lparr>x = 0, y = 0\<rparr>"

text \<open>A failed \<^verbatim>\<open>assert\<close> is the only way an operation does not return.\<close>

datatype error = AssertionFailed


section \<open>Free operators\<close>

definition op_neg :: "'a::uminus Vector2 \<Rightarrow> 'a Vector2" where
  "op_neg right = \<lparr>x = - x right, y = - y right\<rparr>"

definition op_add :: "'a::plus Vector2 \<Rightarrow> 'a Vector2 \<Rightarrow> 'a Vector2" where
  "op_add left right = \<lparr>x = x left + x right, y = y left + y right\<rparr>"

definition op_sub :: "'a::minus Vector2 \<Rightarrow> 'a Vector2 \<Rightarrow> 'a Vector2" where
  "op_sub left right = \<lparr>x = x left - x right, y = y left - y right\<rparr>"

text \<open>\<^verbatim>\<open>operator *(const Vector2<T>&, T)\<close> and \<^verbatim>\<open>operator *(T, const Vector2<T>&)\<close>.\<close>

definition op_mul :: "'a::times Vector2 \<Rightarrow> 'a \<Rightarrow> 'a Vector2" where
  "op_mul left right = \<lparr>x = x left * right, y = y left * right\<rparr>"

definition op_mul_left :: "'a::times \<Rightarrow> 'a Vector2 \<Rightarrow> 'a Vector2" where
  "op_mul_left left right = \<lparr>x = x right * left, y = y right * left\<rparr>"

text \<open>
  \<^verbatim>\<open>operator /(const Vector2<T>&, T)\<close> with the division of \<^verbatim>\<open>T\<close>: the field
  division for \<^verbatim>\<open>float\<close>, the unsigned quotient for \<^verbatim>\<open>unsigned int\<close>. The
  operator has no guard of its own against a zero divisor.
\<close>

definition op_div :: "'a::divide Vector2 \<Rightarrow> 'a \<Rightarrow> 'a Vector2" where
  "op_div left right = \<lparr>x = x left div right, y = y left div right\<rparr>"

text \<open>
  For \<^verbatim>\<open>T = int\<close> the quotient truncates towards zero, on the two's complement
  reading of the word.
\<close>

definition int_div :: "32 word \<Rightarrow> 32 word \<Rightarrow> 32 word" where
  "int_div a b = word_of_int (sint a sdiv sint b)"

definition op_div_int :: "Vector2i \<Rightarrow> 32 word \<Rightarrow> Vector2i" where
  "op_div_int left right = \<lparr>x = int_div (x left) right, y = int_div (y left) right\<rparr>"

definition op_eq :: "'a Vector2 \<Rightarrow> 'a Vector2 \<Rightarrow> bool" where
  "op_eq left right \<longleftrightarrow> (x left = x right) \<and> (y left = y right)"

definition op_ne :: "'a Vector2 \<Rightarrow> 'a Vector2 \<Rightarrow> bool" where
  "op_ne left right \<longleftrightarrow> (x left \<noteq> x right) \<or> (y left \<noteq> y right)"


section \<open>Compound assignment\<close>

text \<open>
  The compound operators take their left operand by mutable reference and their vector
  right operand by constant reference, so the two may be the same object. Objects live
  in a store indexed by address; an operator updates the store one field at a time, in
  the order of the source, and returns the address its result refers to.
\<close>

type_synonym addr = nat
type_synonym 'a store = "addr \<Rightarrow> 'a Vector2"

definition op_add_assign :: "'a::plus store \<Rightarrow> addr \<Rightarrow> addr \<Rightarrow> addr \<times> 'a store" where
  "op_add_assign s left right =
     (let s1 = s(left := (s left)\<lparr>x := x (s left) + x (s right)\<rparr>);
          s2 = s1(left := (s1 left)\<lparr>y := y (s1 left) + y (s1 right)\<rparr>)
      in (left, s2))"

definition op_sub_assign :: "'a::minus store \<Rightarrow> addr \<Rightarrow> addr \<Rightarrow> addr \<times> 'a store" where
  "op_sub_assign s left right =
     (let s1 = s(left := (s left)\<lparr>x := x (s left) - x (s right)\<rparr>);
          s2 = s1(left := (s1 left)\<lparr>y := y (s1 left) - y (s1 right)\<rparr>)
      in (left, s2))"

text \<open>The scalar operand is passed by value.\<close>

definition op_mul_assign :: "'a::times store \<Rightarrow> addr \<Rightarrow> 'a \<Rightarrow> addr \<times> 'a store" where
  "op_mul_assign s left right =
     (let s1 = s(left := (s left)\<lparr>x := x (s left) * right\<rparr>);
          s2 = s1(left := (s1 left)\<lparr>y := y (s1 left) * right\<rparr>)
      in (left, s2))"

definition op_div_assign :: "'a::divide store \<Rightarrow> addr \<Rightarrow> 'a \<Rightarrow> addr \<times> 'a store" where
  "op_div_assign s left right =
     (let s1 = s(left := (s left)\<lparr>x := x (s left) div right\<rparr>);
          s2 = s1(left := (s1 left)\<lparr>y := y (s1 left) div right\<rparr>)
      in (left, s2))"

definition op_div_assign_int :: "32 word store \<Rightarrow> addr \<Rightarrow> 32 word \<Rightarrow> addr \<times> 32 word store" where
  "op_div_assign_int s left right =
     (let s1 = s(left := (s left)\<lparr>x := int_div (x (s left)) right\<rparr>);
          s2 = s1(left := (s1 left)\<lparr>y := int_div (y (s1 left)) right\<rparr>)
      in (left, s2))"


section \<open>Products\<close>

definition dot :: "'a::{plus,times} Vector2 \<Rightarrow> 'a Vector2 \<Rightarrow> 'a" where
  "dot v rhs = x v * x rhs + y v * y rhs"

definition cross :: "'a::{minus,times} Vector2 \<Rightarrow> 'a Vector2 \<Rightarrow> 'a" where
  "cross v rhs = x v * y rhs - y v * x rhs"

definition cwiseMul :: "'a::times Vector2 \<Rightarrow> 'a Vector2 \<Rightarrow> 'a Vector2" where
  "cwiseMul v rhs = \<lparr>x = x v * x rhs, y = y v * y rhs\<rparr>"

definition cwiseDiv :: "'a::{zero,divide} Vector2 \<Rightarrow> 'a Vector2 \<Rightarrow> error + 'a Vector2" where
  "cwiseDiv v rhs =
     (if \<not> (x rhs \<noteq> 0 \<and> y rhs \<noteq> 0) then Inl AssertionFailed
      else Inr \<lparr>x = x v div x rhs, y = y v div y rhs\<rparr>)"


section \<open>Geometry of the floating-point instantiation\<close>

text \<open>
  The member functions \<^verbatim>\<open>length\<close>, \<^verbatim>\<open>lengthSq\<close>, \<^verbatim>\<open>withLength\<close>,
  \<^verbatim>\<open>normalized\<close> and \<^verbatim>\<open>projectedOnto\<close> are written in terms of \<^verbatim>\<open>*this\<close> and
  are embedded below, with \<^verbatim>\<open>std::sqrt\<close> as \<^const>\<open>sqrt\<close>.

  Five other member functions have no embedding, because their bodies refer to names
  that are not declared where they are used: \<^verbatim>\<open>signedAngleTo\<close> calls
  \<^verbatim>\<open>lhs.cross(rhs)\<close> and \<^verbatim>\<open>lhs.dot(rhs)\<close>; \<^verbatim>\<open>polarAngle\<close>, \<^verbatim>\<open>rotatedBy\<close> and
  \<^verbatim>\<open>perpendicular\<close> read \<^verbatim>\<open>vector.x\<close> and \<^verbatim>\<open>vector.y\<close>; \<^verbatim>\<open>withPolarAngle\<close> calls
  \<^verbatim>\<open>length(vector)\<close>, where the only \<^verbatim>\<open>length\<close> is the member without arguments.
  Neither \<^verbatim>\<open>lhs\<close> nor \<^verbatim>\<open>vector\<close> is a member, a parameter or a variable of these
  functions, so the source gives them no meaning to translate.
\<close>

definition lengthSq :: "'a::{plus,times} Vector2 \<Rightarrow> 'a" where
  "lengthSq v = dot v v"

definition length_v :: "Vector2f \<Rightarrow> real" where
  "length_v v = sqrt (lengthSq v)"

definition withLength :: "Vector2f \<Rightarrow> real \<Rightarrow> error + Vector2f" where
  "withLength v newLength =
     (if \<not> op_ne v Vector2_default then Inl AssertionFailed
      else Inr (op_div (op_mul v newLength) (length_v v)))"

definition normalized :: "Vector2f \<Rightarrow> error + Vector2f" where
  "normalized v =
     (if \<not> op_ne v Vector2_default then Inl AssertionFailed
      else Inr (op_div v (length_v v)))"

definition projectedOnto :: "Vector2f \<Rightarrow> Vector2f \<Rightarrow> error + Vector2f" where
  "projectedOnto v axis =
     (if \<not> op_ne axis Vector2_default then Inl AssertionFailed
      else Inr (op_mul_left (dot v axis div lengthSq axis) axis))"


section \<open>Machine integers: multiplying, then dividing\<close>

lemma unsigned_mul_div_cancel:
  fixes a s :: "32 word"
  assumes "s \<noteq> 0" and "unat a * unat s < 2 ^ 32"
  shows "(a * s) div s = a"
proof -
  have m: "unat (a * s) = unat a * unat s"
    using assms(2) unat_mult_lem [of a s] by simp
  have "unat s \<noteq> 0" using assms(1) by (simp add: unat_eq_0)
  then have "unat ((a * s) div s) = unat a"
    by (simp add: unat_div m)
  then show ?thesis by (rule word_unat_eq_iff [THEN iffD2])
qed

lemma int_mul_sdiv_cancel:
  fixes k t :: int
  assumes "t \<noteq> 0"
  shows "(k * t) sdiv t = k"
proof -
  have "\<bar>k * t\<bar> div \<bar>t\<bar> = \<bar>k\<bar>" using assms by (simp add: abs_mult)
  moreover have "sgn t * sgn t = 1"
    using assms by (cases "0 < t") simp_all
  then have "sgn (k * t) * sgn t = sgn k"
    by (simp add: sgn_mult mult.assoc)
  ultimately have "(k * t) sdiv t = sgn k * \<bar>k\<bar>"
    by (simp add: signed_divide_int_def)
  then show ?thesis by (simp add: mult.commute abs_mult_sgn)
qed

lemma signed_mul_div_cancel:
  fixes a s :: "32 word"
  assumes "s \<noteq> 0" and "- (2 ^ 31) \<le> sint a * sint s" and "sint a * sint s < 2 ^ 31"
  shows "int_div (a * s) s = a"
proof -
  have "sint (a * s) = sint a * sint s"
    using assms(2,3) by (simp add: sint_word_mult signed_take_bit_int_eq_self)
  moreover have "sint s \<noteq> 0" using assms(1) by (simp add: signed_eq_0_iff)
  ultimately have "sint (a * s) sdiv sint s = sint a"
    by (simp add: int_mul_sdiv_cancel)
  then show ?thesis by (simp add: int_div_def)
qed


section \<open>Equality and the arithmetic operators\<close>

text \<open>
  C10. For all vectors \<open>a\<close> and \<open>b\<close>, \<^verbatim>\<open>a != b\<close> is the negation of \<^verbatim>\<open>a == b\<close>:
  the first is a disjunction of two field inequalities, the second the conjunction of
  the two field equalities.
\<close>

theorem op_ne_iff_not_op_eq:
  "op_ne a b \<longleftrightarrow> \<not> op_eq a b"
  by (simp add: op_ne_def op_eq_def)

theorem op_ne_iff_not_op_eq_witness:
  "op_ne \<lparr>x = 1, y = 2\<rparr> \<lparr>x = 1, y = 3 :: 32 word\<rparr>
   \<and> \<not> op_eq \<lparr>x = 1, y = 2\<rparr> \<lparr>x = 1, y = 3 :: 32 word\<rparr>
   \<and> op_eq \<lparr>x = 1, y = 2\<rparr> \<lparr>x = 1, y = 2 :: 32 word\<rparr>
   \<and> \<not> op_ne \<lparr>x = 1, y = 2\<rparr> \<lparr>x = 1, y = 2 :: 32 word\<rparr>"
proof -
  have differ: "op_ne \<lparr>x = 1, y = 2\<rparr> \<lparr>x = 1, y = 3 :: 32 word\<rparr>"
    by (simp add: op_ne_def)
  have same: "op_eq \<lparr>x = 1, y = 2\<rparr> \<lparr>x = 1, y = 2 :: 32 word\<rparr>"
    by (simp add: op_eq_def)
  show ?thesis
    using differ same
      op_ne_iff_not_op_eq [of "\<lparr>x = 1, y = 2\<rparr>" "\<lparr>x = 1, y = 3 :: 32 word\<rparr>"]
      op_ne_iff_not_op_eq [of "\<lparr>x = 1, y = 2\<rparr>" "\<lparr>x = 1, y = 2 :: 32 word\<rparr>"]
    by blast
qed

text \<open>
  C9. Each compound assignment leaves in its left operand what the pure binary operator
  returns on the operands' values before the call, changes no other object, and returns
  a reference to the left operand. This holds also when the right operand of \<^verbatim>\<open>+=\<close>
  or \<^verbatim>\<open>-=\<close> is the left operand itself.
\<close>

theorem compound_assignment_agrees:
  fixes s :: "'a::{plus,minus,times,divide} store" and si :: "32 word store"
  shows "op_add_assign s left right = (left, s(left := op_add (s left) (s right)))
       \<and> op_sub_assign s left right = (left, s(left := op_sub (s left) (s right)))
       \<and> op_mul_assign s left k = (left, s(left := op_mul (s left) k))
       \<and> op_div_assign s left k = (left, s(left := op_div (s left) k))
       \<and> op_div_assign_int si left ki = (left, si(left := op_div_int (si left) ki))"
proof (intro conjI)
  show "op_add_assign s left right = (left, s(left := op_add (s left) (s right)))"
    by (auto simp add: op_add_assign_def op_add_def Let_def fun_eq_iff)
  show "op_sub_assign s left right = (left, s(left := op_sub (s left) (s right)))"
    by (auto simp add: op_sub_assign_def op_sub_def Let_def fun_eq_iff)
  show "op_mul_assign s left k = (left, s(left := op_mul (s left) k))"
    by (auto simp add: op_mul_assign_def op_mul_def Let_def fun_eq_iff)
  show "op_div_assign s left k = (left, s(left := op_div (s left) k))"
    by (auto simp add: op_div_assign_def op_div_def Let_def fun_eq_iff)
  show "op_div_assign_int si left ki = (left, si(left := op_div_int (si left) ki))"
    by (auto simp add: op_div_assign_int_def op_div_int_def Let_def fun_eq_iff)
qed


text \<open>
  C7. For the integer coordinate types and a non-zero scalar \<open>s\<close>: when \<open>s\<close> divides
  the products \<open>v.x * s\<close> and \<open>v.y * s\<close> with no remainder and the quotients are \<open>v.x\<close>
  and \<open>v.y\<close>, then \<open>(v * s) / s = v\<close>, both operators acting memberwise. The
  condition holds whenever neither product leaves the range of the type: below
  \<open>2\<^sup>3\<^sup>2\<close> for \<^verbatim>\<open>unsigned int\<close>, within \<open>[-2\<^sup>3\<^sup>1, 2\<^sup>3\<^sup>1)\<close> for \<^verbatim>\<open>int\<close>.
\<close>

theorem scalar_mul_div_exact:
  fixes u w :: "32 word Vector2" and s k :: "32 word"
  shows "(s \<noteq> 0 \<and> x (op_mul u s) mod s = 0 \<and> x (op_mul u s) div s = x u
                \<and> y (op_mul u s) mod s = 0 \<and> y (op_mul u s) div s = y u
            \<longrightarrow> op_div (op_mul u s) s = u)
       \<and> (k \<noteq> 0 \<and> sint (x (op_mul w k)) smod sint k = 0 \<and> int_div (x (op_mul w k)) k = x w
                \<and> sint (y (op_mul w k)) smod sint k = 0 \<and> int_div (y (op_mul w k)) k = y w
            \<longrightarrow> op_div_int (op_mul w k) k = w)
       \<and> (s \<noteq> 0 \<and> unat (x u) * unat s < 2 ^ 32 \<and> unat (y u) * unat s < 2 ^ 32
            \<longrightarrow> op_div (op_mul u s) s = u)
       \<and> (k \<noteq> 0 \<and> - (2 ^ 31) \<le> sint (x w) * sint k \<and> sint (x w) * sint k < 2 ^ 31
                  \<and> - (2 ^ 31) \<le> sint (y w) * sint k \<and> sint (y w) * sint k < 2 ^ 31
            \<longrightarrow> op_div_int (op_mul w k) k = w)"
proof (intro conjI impI)
  assume "s \<noteq> 0 \<and> x (op_mul u s) mod s = 0 \<and> x (op_mul u s) div s = x u
                \<and> y (op_mul u s) mod s = 0 \<and> y (op_mul u s) div s = y u"
  then show "op_div (op_mul u s) s = u" by (simp add: op_div_def)
next
  assume "k \<noteq> 0 \<and> sint (x (op_mul w k)) smod sint k = 0 \<and> int_div (x (op_mul w k)) k = x w
                \<and> sint (y (op_mul w k)) smod sint k = 0 \<and> int_div (y (op_mul w k)) k = y w"
  then show "op_div_int (op_mul w k) k = w" by (simp add: op_div_int_def)
next
  assume "s \<noteq> 0 \<and> unat (x u) * unat s < 2 ^ 32 \<and> unat (y u) * unat s < 2 ^ 32"
  then show "op_div (op_mul u s) s = u"
    by (simp add: op_div_def op_mul_def unsigned_mul_div_cancel)
next
  assume "k \<noteq> 0 \<and> - (2 ^ 31) \<le> sint (x w) * sint k \<and> sint (x w) * sint k < 2 ^ 31
                  \<and> - (2 ^ 31) \<le> sint (y w) * sint k \<and> sint (y w) * sint k < 2 ^ 31"
  then show "op_div_int (op_mul w k) k = w"
    by (simp add: op_div_int_def op_mul_def signed_mul_div_cancel)
qed

theorem scalar_mul_div_exact_witness:
  "((3 :: 32 word) \<noteq> 0
     \<and> x (op_mul \<lparr>x = 6, y = 10\<rparr> (3 :: 32 word)) mod 3 = 0
     \<and> x (op_mul \<lparr>x = 6, y = 10\<rparr> (3 :: 32 word)) div 3 = x \<lparr>x = 6 :: 32 word, y = 10\<rparr>
     \<and> y (op_mul \<lparr>x = 6, y = 10\<rparr> (3 :: 32 word)) mod 3 = 0
     \<and> y (op_mul \<lparr>x = 6, y = 10\<rparr> (3 :: 32 word)) div 3 = y \<lparr>x = 6 :: 32 word, y = 10\<rparr>
     \<and> unat (x \<lparr>x = 6 :: 32 word, y = 10\<rparr>) * unat (3 :: 32 word) < 2 ^ 32
     \<and> unat (y \<lparr>x = 6 :: 32 word, y = 10\<rparr>) * unat (3 :: 32 word) < 2 ^ 32)
   \<and> op_div (op_mul \<lparr>x = 6, y = 10\<rparr> (3 :: 32 word)) 3 = \<lparr>x = 6, y = 10\<rparr>
   \<and> ((- 3 :: 32 word) \<noteq> 0
     \<and> sint (x (op_mul \<lparr>x = - 6, y = 10\<rparr> (- 3 :: 32 word))) smod sint (- 3 :: 32 word) = 0
     \<and> int_div (x (op_mul \<lparr>x = - 6, y = 10\<rparr> (- 3 :: 32 word))) (- 3)
         = x \<lparr>x = - 6 :: 32 word, y = 10\<rparr>
     \<and> sint (y (op_mul \<lparr>x = - 6, y = 10\<rparr> (- 3 :: 32 word))) smod sint (- 3 :: 32 word) = 0
     \<and> int_div (y (op_mul \<lparr>x = - 6, y = 10\<rparr> (- 3 :: 32 word))) (- 3)
         = y \<lparr>x = - 6 :: 32 word, y = 10\<rparr>
     \<and> - (2 ^ 31) \<le> sint (x \<lparr>x = - 6 :: 32 word, y = 10\<rparr>) * sint (- 3 :: 32 word)
     \<and> sint (x \<lparr>x = - 6 :: 32 word, y = 10\<rparr>) * sint (- 3 :: 32 word) < 2 ^ 31
     \<and> - (2 ^ 31) \<le> sint (y \<lparr>x = - 6 :: 32 word, y = 10\<rparr>) * sint (- 3 :: 32 word)
     \<and> sint (y \<lparr>x = - 6 :: 32 word, y = 10\<rparr>) * sint (- 3 :: 32 word) < 2 ^ 31)
   \<and> op_div_int (op_mul \<lparr>x = - 6, y = 10\<rparr> (- 3 :: 32 word)) (- 3) = \<lparr>x = - 6, y = 10\<rparr>"
proof -
  have unsigned_hyps:
    "(3 :: 32 word) \<noteq> 0
     \<and> x (op_mul \<lparr>x = 6, y = 10\<rparr> (3 :: 32 word)) mod 3 = 0
     \<and> x (op_mul \<lparr>x = 6, y = 10\<rparr> (3 :: 32 word)) div 3 = x \<lparr>x = 6 :: 32 word, y = 10\<rparr>
     \<and> y (op_mul \<lparr>x = 6, y = 10\<rparr> (3 :: 32 word)) mod 3 = 0
     \<and> y (op_mul \<lparr>x = 6, y = 10\<rparr> (3 :: 32 word)) div 3 = y \<lparr>x = 6 :: 32 word, y = 10\<rparr>
     \<and> unat (x \<lparr>x = 6 :: 32 word, y = 10\<rparr>) * unat (3 :: 32 word) < 2 ^ 32
     \<and> unat (y \<lparr>x = 6 :: 32 word, y = 10\<rparr>) * unat (3 :: 32 word) < 2 ^ 32"
    by (simp add: op_mul_def)
  have signed_hyps:
    "(- 3 :: 32 word) \<noteq> 0
     \<and> sint (x (op_mul \<lparr>x = - 6, y = 10\<rparr> (- 3 :: 32 word))) smod sint (- 3 :: 32 word) = 0
     \<and> int_div (x (op_mul \<lparr>x = - 6, y = 10\<rparr> (- 3 :: 32 word))) (- 3)
         = x \<lparr>x = - 6 :: 32 word, y = 10\<rparr>
     \<and> sint (y (op_mul \<lparr>x = - 6, y = 10\<rparr> (- 3 :: 32 word))) smod sint (- 3 :: 32 word) = 0
     \<and> int_div (y (op_mul \<lparr>x = - 6, y = 10\<rparr> (- 3 :: 32 word))) (- 3)
         = y \<lparr>x = - 6 :: 32 word, y = 10\<rparr>
     \<and> - (2 ^ 31) \<le> sint (x \<lparr>x = - 6 :: 32 word, y = 10\<rparr>) * sint (- 3 :: 32 word)
     \<and> sint (x \<lparr>x = - 6 :: 32 word, y = 10\<rparr>) * sint (- 3 :: 32 word) < 2 ^ 31
     \<and> - (2 ^ 31) \<le> sint (y \<lparr>x = - 6 :: 32 word, y = 10\<rparr>) * sint (- 3 :: 32 word)
     \<and> sint (y \<lparr>x = - 6 :: 32 word, y = 10\<rparr>) * sint (- 3 :: 32 word) < 2 ^ 31"
    by (simp add: op_mul_def int_div_def signed_divide_int_def signed_modulo_int_def)
  note inst = scalar_mul_div_exact
    [where s = 3 and u = "\<lparr>x = 6, y = 10\<rparr>" and k = "- 3" and w = "\<lparr>x = - 6, y = 10\<rparr>"]
  show ?thesis using inst unsigned_hyps signed_hyps by blast
qed

text \<open>
  Divisibility of the wrapped product alone is not enough. For \<^verbatim>\<open>unsigned int\<close>,
  \<open>2\<^sup>3\<^sup>1 * 2\<close> wraps to \<open>0\<close>, which \<open>2\<close> divides with no remainder, and \<open>0 / 2\<close> is not
  \<open>2\<^sup>3\<^sup>1\<close>: the quotient has to be compared with the component, as the condition above
  does.
\<close>

lemma scalar_mul_div_wraps:
  "x (op_mul \<lparr>x = 2147483648, y = 0\<rparr> (2 :: 32 word)) mod 2 = 0
   \<and> y (op_mul \<lparr>x = 2147483648, y = 0\<rparr> (2 :: 32 word)) mod 2 = 0
   \<and> op_div (op_mul \<lparr>x = 2147483648, y = 0\<rparr> (2 :: 32 word)) 2 = \<lparr>x = 0, y = 0\<rparr>"
  by (simp add: op_div_def op_mul_def)


section \<open>Products and component-wise division\<close>

text \<open>
  C6. The cross product is anti-commutative: \<open>cross v w = - cross w v\<close>, where
  \<open>cross v w\<close> is \<open>v.x * w.y - v.y * w.x\<close>. It holds in every commutative ring: the
  reals, and the 32-bit words with their wrap-around.
\<close>

theorem cross_anticommutative:
  fixes v w :: "'a::comm_ring Vector2"
  shows "cross v w = - cross w v \<and> cross v w = x v * y w - y v * x w"
  by (simp add: cross_def mult.commute)

text \<open>
  C8. When neither component of \<open>rhs\<close> is zero, the assertion of \<^verbatim>\<open>cwiseDiv\<close> holds:
  the call does not fail and returns \<open>(v.x / rhs.x, v.y / rhs.y)\<close>, both quotients by
  non-zero divisors.
\<close>

theorem cwiseDiv_defined:
  assumes "x rhs \<noteq> 0" and "y rhs \<noteq> 0"
  shows "cwiseDiv v rhs = Inr \<lparr>x = x v div x rhs, y = y v div y rhs\<rparr>
       \<and> cwiseDiv v rhs \<noteq> Inl AssertionFailed"
  using assms by (simp add: cwiseDiv_def)

theorem cwiseDiv_defined_witness:
  "x \<lparr>x = 2, y = 4\<rparr> \<noteq> (0::real) \<and> y \<lparr>x = 2, y = 4\<rparr> \<noteq> (0::real)
   \<and> cwiseDiv \<lparr>x = 6, y = 2\<rparr> \<lparr>x = 2, y = 4::real\<rparr> = Inr \<lparr>x = 3, y = 1 / 2\<rparr>
   \<and> cwiseDiv \<lparr>x = 6, y = 2\<rparr> \<lparr>x = 2, y = 4::real\<rparr> \<noteq> Inl AssertionFailed"
  using cwiseDiv_defined [of "\<lparr>x = 2, y = 4::real\<rparr>" "\<lparr>x = 6, y = 2\<rparr>"] by simp

end
